theory Spec2Isabelle
  imports Complex_Main "HOL-Library.Word"
begin

section \<open>Product catalog: the pricing value model and the Product aggregate\<close>

text \<open>
  A shallow embedding of the Go packages \<^verbatim>\<open>domain\<close>, \<^verbatim>\<open>domain/services\<close> and of
  the apply-discount use case. Conventions:
  \<^item> \<^verbatim>\<open>*big.Rat\<close> is \<open>rat option\<close> (\<open>None\<close> is the nil pointer); \<open>rat\<close> is always in lowest
    terms with a positive denominator, as a \<^verbatim>\<open>big.Rat\<close> is;
  \<^item> \<^verbatim>\<open>int64\<close> is \<open>64 word\<close>, read through \<open>sint\<close>;
  \<^item> \<^verbatim>\<open>time.Time\<close> is an instant on the time line, an \<open>int\<close>; \<^verbatim>\<open>Before\<close> and \<^verbatim>\<open>After\<close>
    compare instants;
  \<^item> a nil-able pointer (\<^verbatim>\<open>*Money\<close>, \<^verbatim>\<open>*Discount\<close>, \<^verbatim>\<open>*time.Time\<close>, \<^verbatim>\<open>*Product\<close>) is an
    \<open>option\<close>;
  \<^item> a method that mutates its receiver returns the updated receiver.
\<close>

subsection \<open>Primitive types\<close>

type_synonym Time = int

type_synonym int64 = "64 word"

definition Before :: "Time \<Rightarrow> Time \<Rightarrow> bool" where
  "Before t u = (t < u)"

definition After :: "Time \<Rightarrow> Time \<Rightarrow> bool" where
  "After t u = (t > u)"

text \<open>
  \<^verbatim>\<open>big.NewRat(a, b)\<close> on two \<^verbatim>\<open>int64\<close>: the fraction \<open>a / b\<close>, normalised. Go panics
  on \<open>b = 0\<close>; every caller below either excludes that case before the call or writes
  the panic out.
\<close>

definition NewRat :: "int64 \<Rightarrow> int64 \<Rightarrow> rat" where
  "NewRat a b = Fract (sint a) (sint b)"

text \<open>\<^verbatim>\<open>x.Num()\<close> and \<^verbatim>\<open>x.Denom()\<close> of a \<^verbatim>\<open>big.Rat\<close>: numerator and (positive) denominator
  in lowest terms.\<close>

definition Num :: "rat \<Rightarrow> int" where
  "Num r = fst (quotient_of r)"

definition Denom :: "rat \<Rightarrow> int" where
  "Denom r = snd (quotient_of r)"

text \<open>
  \<^verbatim>\<open>(*big.Int).Int64()\<close>: the integer itself when it fits an \<^verbatim>\<open>int64\<close>. Outside that range
  Go leaves the result undefined; its implementation keeps the low 64 bits in two's
  complement, as here.
\<close>

definition Int64 :: "int \<Rightarrow> int64" where
  "Int64 k = word_of_int k"

text \<open>\<^verbatim>\<open>x.Cmp(y)\<close> on \<^verbatim>\<open>big.Rat\<close>.\<close>

definition Cmp :: "rat \<Rightarrow> rat \<Rightarrow> int" where
  "Cmp x y = (if x < y then - 1 else if x = y then 0 else 1)"

subsection \<open>Errors\<close>

text \<open>
  The two sentinel errors of \<^verbatim>\<open>domain\<close>, an error made by \<^verbatim>\<open>fmt.Errorf\<close> from a
  message, and an error wrapped with \<^verbatim>\<open>%w\<close> behind a prefix.
\<close>

datatype DomainError =
    ErrProductNotActive
  | ErrInvalidDiscountPeriod
  | Errorf string
  | Wrapf string DomainError

subsection \<open>Money (money.go)\<close>

text \<open>The struct \<^verbatim>\<open>Money { value *big.Rat }\<close>; the field \<^verbatim>\<open>value\<close> is \<open>rat_value\<close>.\<close>

record Money =
  rat_value :: "rat option"

definition NewMoneyFromFraction :: "int64 \<Rightarrow> int64 \<Rightarrow> DomainError + Money" where
  "NewMoneyFromFraction numerator denominator =
     (if sint denominator \<le> 0 then Inl (Errorf ''money denominator must be > 0'')
      else Inr \<lparr>rat_value = Some (NewRat numerator denominator)\<rparr>)"

definition NewMoneyFromRat :: "rat option \<Rightarrow> Money option" where
  "NewMoneyFromRat r =
     (case r of None \<Rightarrow> None | Some q \<Rightarrow> Some \<lparr>rat_value = Some q\<rparr>)"

definition Rat :: "Money option \<Rightarrow> rat option" where
  "Rat m = (case m of None \<Rightarrow> None
            | Some mm \<Rightarrow> (case rat_value mm of None \<Rightarrow> None | Some v \<Rightarrow> Some v))"

definition MultiplyBy :: "Money option \<Rightarrow> rat option \<Rightarrow> Money option" where
  "MultiplyBy m ratio =
     (case m of None \<Rightarrow> None
      | Some mm \<Rightarrow>
          (case rat_value mm of None \<Rightarrow> None
           | Some v \<Rightarrow>
               (case ratio of None \<Rightarrow> None
                | Some r \<Rightarrow> Some \<lparr>rat_value = Some (v * r)\<rparr>)))"

definition Subtract :: "Money option \<Rightarrow> Money option \<Rightarrow> Money option" where
  "Subtract m other =
     (case m of None \<Rightarrow> None
      | Some mm \<Rightarrow>
          (case rat_value mm of None \<Rightarrow> None
           | Some v \<Rightarrow>
               (case other of None \<Rightarrow> None
                | Some oo \<Rightarrow>
                    (case rat_value oo of None \<Rightarrow> None
                     | Some w \<Rightarrow> Some \<lparr>rat_value = Some (v - w)\<rparr>))))"

text \<open>The test \<^verbatim>\<open>other == nil || other.value == nil\<close> of \<^verbatim>\<open>Compare\<close>.\<close>

definition nilMoney :: "Money option \<Rightarrow> bool" where
  "nilMoney other = (case other of None \<Rightarrow> True | Some oo \<Rightarrow> rat_value oo = None)"

definition Compare :: "Money option \<Rightarrow> Money option \<Rightarrow> int" where
  "Compare m other =
     (case m of
        None \<Rightarrow> (if nilMoney other then 0 else - 1)
      | Some mm \<Rightarrow>
          (case rat_value mm of
             None \<Rightarrow> (if nilMoney other then 0 else - 1)
           | Some v \<Rightarrow>
               (case other of None \<Rightarrow> 1
                | Some oo \<Rightarrow> (case rat_value oo of None \<Rightarrow> 1 | Some w \<Rightarrow> Cmp v w))))"

definition Fraction :: "Money option \<Rightarrow> int64 \<times> int64" where
  "Fraction m =
     (case m of None \<Rightarrow> (0, 1)
      | Some mm \<Rightarrow>
          (case rat_value mm of None \<Rightarrow> (0, 1)
           | Some v \<Rightarrow> (Int64 (Num v), Int64 (Denom v))))"

subsection \<open>Discount\<close>

text \<open>
  The struct \<^verbatim>\<open>Discount { percentage *big.Rat; startAt, endAt time.Time }\<close>. The fields are
  unexported and \<^verbatim>\<open>NewDiscount\<close>, the only producer of a \<^verbatim>\<open>Discount\<close>, stores a copy of a
  percentage it has checked to be non-nil: the record holds the rational itself, and of
  the test \<^verbatim>\<open>d == nil || d.percentage == nil\<close> in \<^verbatim>\<open>Percentage\<close> only the first half can hold.
\<close>

record Discount =
  percentage :: rat
  startAt :: Time
  endAt :: Time

definition NewDiscount :: "rat option \<Rightarrow> Time \<Rightarrow> Time \<Rightarrow> DomainError + Discount" where
  "NewDiscount percentage' start end' =
     (case percentage' of
        None \<Rightarrow> Inl (Errorf ''discount percentage is required'')
      | Some q \<Rightarrow>
          if Cmp q 0 < 0 \<or> Cmp q 1 > 0
            then Inl (Errorf ''discount percentage must be between 0 and 1'')
          else if Before end' start then Inl ErrInvalidDiscountPeriod
          else Inr \<lparr>percentage = q, startAt = start, endAt = end'\<rparr>)"

definition Percentage :: "Discount option \<Rightarrow> rat option" where
  "Percentage d = (case d of None \<Rightarrow> None | Some dd \<Rightarrow> Some (percentage dd))"

definition IsValidAt :: "Discount option \<Rightarrow> Time \<Rightarrow> bool" where
  "IsValidAt d t =
     (case d of
        None \<Rightarrow> False
      | Some dd \<Rightarrow>
          if Before t (startAt dd) then False
          else if After t (endAt dd) then False
          else True)"

subsection \<open>ChangeTracker\<close>

text \<open>
  The struct \<^verbatim>\<open>ChangeTracker { dirtyFields map[string]bool }\<close>. Both constructors of the
  aggregate store a tracker made by \<^verbatim>\<open>NewChangeTracker\<close> in the unexported field
  \<^verbatim>\<open>changes\<close> and no method replaces it, so the aggregate's record holds the tracker
  itself and the methods are given for that tracker; their first line, which returns at
  once on a nil receiver (\<^verbatim>\<open>Dirty\<close> answering false), is never taken through an aggregate.
  The loop of \<^verbatim>\<open>Clear\<close> deletes every key of the map.
\<close>

record ChangeTracker =
  dirtyFields :: "string \<rightharpoonup> bool"

definition NewChangeTracker :: ChangeTracker where
  "NewChangeTracker = \<lparr>dirtyFields = Map.empty\<rparr>"

definition MarkDirty :: "ChangeTracker \<Rightarrow> string \<Rightarrow> ChangeTracker" where
  "MarkDirty ct field = ct\<lparr>dirtyFields := (dirtyFields ct)(field \<mapsto> True)\<rparr>"

definition Dirty :: "ChangeTracker \<Rightarrow> string \<Rightarrow> bool" where
  "Dirty ct field = (case dirtyFields ct field of None \<Rightarrow> False | Some b \<Rightarrow> b)"

definition Clear :: "ChangeTracker \<Rightarrow> ChangeTracker" where
  "Clear ct = ct\<lparr>dirtyFields := Map.empty\<rparr>"

subsection \<open>Domain events\<close>

text \<open>Each event struct embeds \<^verbatim>\<open>baseEvent { occurredAt }\<close> and carries \<^verbatim>\<open>ProductID\<close>.\<close>

datatype DomainEvent =
    ProductCreatedEvent Time string
  | ProductUpdatedEvent Time string
  | ProductActivatedEvent Time string
  | ProductDeactivatedEvent Time string
  | DiscountAppliedEvent Time string
  | DiscountRemovedEvent Time string

fun OccurredAt :: "DomainEvent \<Rightarrow> Time" where
  "OccurredAt (ProductCreatedEvent t i) = t"
| "OccurredAt (ProductUpdatedEvent t i) = t"
| "OccurredAt (ProductActivatedEvent t i) = t"
| "OccurredAt (ProductDeactivatedEvent t i) = t"
| "OccurredAt (DiscountAppliedEvent t i) = t"
| "OccurredAt (DiscountRemovedEvent t i) = t"

subsection \<open>The Product aggregate\<close>

text \<open>\<^verbatim>\<open>type ProductStatus string\<close> with its four constants; the repository casts the stored
  column to it, so a status is any string.\<close>

type_synonym ProductStatus = string

definition ProductStatusDraft :: ProductStatus where
  "ProductStatusDraft = ''draft''"

definition ProductStatusActive :: ProductStatus where
  "ProductStatusActive = ''active''"

definition ProductStatusInactive :: ProductStatus where
  "ProductStatusInactive = ''inactive''"

definition ProductStatusArchived :: ProductStatus where
  "ProductStatusArchived = ''archived''"

definition FieldName :: string where
  "FieldName = ''name''"

definition FieldDescription :: string where
  "FieldDescription = ''description''"

definition FieldCategory :: string where
  "FieldCategory = ''category''"

definition FieldBasePrice :: string where
  "FieldBasePrice = ''base_price''"

definition FieldDiscount :: string where
  "FieldDiscount = ''discount''"

definition FieldStatus :: string where
  "FieldStatus = ''status''"

definition FieldArchivedAt :: string where
  "FieldArchivedAt = ''archived_at''"

text \<open>The struct \<^verbatim>\<open>Product\<close>; the field \<^verbatim>\<open>id\<close> is \<open>id'\<close>. The getters \<^verbatim>\<open>ID()\<close>, \<^verbatim>\<open>Name()\<close>,
  \<^verbatim>\<open>BasePrice()\<close>, \<^verbatim>\<open>Discount()\<close>, \<^verbatim>\<open>Status()\<close>, \<^verbatim>\<open>Changes()\<close> ... return the fields.\<close>

record Product =
  id' :: string
  name :: string
  description :: string
  category :: string
  basePrice :: "Money option"
  discount :: "Discount option"
  status :: ProductStatus
  archivedAt :: "Time option"
  createdAt :: Time
  updatedAt :: Time
  changes :: ChangeTracker
  events :: "DomainEvent list"

definition NewProduct ::
  "string \<Rightarrow> string \<Rightarrow> string \<Rightarrow> string \<Rightarrow> Money option \<Rightarrow> Time \<Rightarrow> Product" where
  "NewProduct i name' description' category' basePrice' now =
     (let p = \<lparr>id' = i, name = name', description = description', category = category',
                basePrice = basePrice', discount = None, status = ProductStatusInactive,
                archivedAt = None, createdAt = now, updatedAt = now,
                changes = NewChangeTracker, events = []\<rparr>;
          p = p\<lparr>changes := MarkDirty (changes p) FieldName\<rparr>;
          p = p\<lparr>changes := MarkDirty (changes p) FieldDescription\<rparr>;
          p = p\<lparr>changes := MarkDirty (changes p) FieldCategory\<rparr>;
          p = p\<lparr>changes := MarkDirty (changes p) FieldBasePrice\<rparr>;
          p = p\<lparr>changes := MarkDirty (changes p) FieldStatus\<rparr>
      in p\<lparr>events := events p @ [ProductCreatedEvent now (id' p)]\<rparr>)"

definition RehydrateProduct ::
  "string \<Rightarrow> string \<Rightarrow> string \<Rightarrow> string \<Rightarrow> Money option \<Rightarrow> Discount option \<Rightarrow>
   ProductStatus \<Rightarrow> Time option \<Rightarrow> Time \<Rightarrow> Time \<Rightarrow> Product" where
  "RehydrateProduct i name' description' category' basePrice' discount' status' archivedAt'
     createdAt' updatedAt' =
     \<lparr>id' = i, name = name', description = description', category = category',
      basePrice = basePrice', discount = discount', status = status',
      archivedAt = archivedAt', createdAt = createdAt', updatedAt = updatedAt',
      changes = NewChangeTracker, events = []\<rparr>"

definition UpdateDetails :: "Product \<Rightarrow> string \<Rightarrow> string \<Rightarrow> string \<Rightarrow> Time \<Rightarrow> Product" where
  "UpdateDetails p name' description' category' now =
     (let changed = False;
          (p, changed) =
            (if name' \<noteq> [] \<and> name' \<noteq> name p
             then (p\<lparr>name := name', changes := MarkDirty (changes p) FieldName\<rparr>, True)
             else (p, changed));
          (p, changed) =
            (if description' \<noteq> [] \<and> description' \<noteq> description p
             then (p\<lparr>description := description',
                     changes := MarkDirty (changes p) FieldDescription\<rparr>, True)
             else (p, changed));
          (p, changed) =
            (if category' \<noteq> [] \<and> category' \<noteq> category p
             then (p\<lparr>category := category', changes := MarkDirty (changes p) FieldCategory\<rparr>, True)
             else (p, changed))
      in if changed
         then p\<lparr>updatedAt := now, events := events p @ [ProductUpdatedEvent now (id' p)]\<rparr>
         else p)"

definition Activate :: "Product \<Rightarrow> Time \<Rightarrow> Product" where
  "Activate p now =
     (if status p = ProductStatusActive then p
      else if status p = ProductStatusArchived then p
      else p\<lparr>status := ProductStatusActive, updatedAt := now,
             changes := MarkDirty (changes p) FieldStatus,
             events := events p @ [ProductActivatedEvent now (id' p)]\<rparr>)"

definition Deactivate :: "Product \<Rightarrow> Time \<Rightarrow> Product" where
  "Deactivate p now =
     (if status p = ProductStatusInactive then p
      else if status p = ProductStatusArchived then p
      else p\<lparr>status := ProductStatusInactive, updatedAt := now,
             changes := MarkDirty (changes p) FieldStatus,
             events := events p @ [ProductDeactivatedEvent now (id' p)]\<rparr>)"

definition Archive :: "Product \<Rightarrow> Time \<Rightarrow> Product" where
  "Archive p now =
     (if status p = ProductStatusArchived then p
      else p\<lparr>status := ProductStatusArchived, archivedAt := Some now, updatedAt := now,
             changes := MarkDirty (MarkDirty (changes p) FieldStatus) FieldArchivedAt\<rparr>)"

text \<open>\<^verbatim>\<open>ApplyDiscount\<close> returns its error (\<open>None\<close> is a nil error) and the receiver as the call
  leaves it.\<close>

definition ApplyDiscount ::
  "Product \<Rightarrow> Discount option \<Rightarrow> Time \<Rightarrow> DomainError option \<times> Product" where
  "ApplyDiscount p discount' now =
     (if status p \<noteq> ProductStatusActive then (Some ErrProductNotActive, p)
      else if discount' = None \<or> \<not> IsValidAt discount' now
        then (Some ErrInvalidDiscountPeriod, p)
      else (None, p\<lparr>discount := discount', updatedAt := now,
                     changes := MarkDirty (changes p) FieldDiscount,
                     events := events p @ [DiscountAppliedEvent now (id' p)]\<rparr>))"

definition RemoveDiscount :: "Product \<Rightarrow> Time \<Rightarrow> Product" where
  "RemoveDiscount p now =
     (if discount p = None then p
      else p\<lparr>discount := None, updatedAt := now,
             changes := MarkDirty (changes p) FieldDiscount,
             events := events p @ [DiscountRemovedEvent now (id' p)]\<rparr>)"

definition DomainEvents :: "Product \<Rightarrow> DomainEvent list" where
  "DomainEvents p = events p"

definition ClearDomainEvents :: "Product \<Rightarrow> Product" where
  "ClearDomainEvents p = p\<lparr>events := []\<rparr>"

subsection \<open>PricingCalculator\<close>

text \<open>
  \<^verbatim>\<open>EffectivePrice\<close> reads the product through its getters and returns a \<^verbatim>\<open>*Money\<close>; it
  assigns to nothing, so the product is not part of what it returns. On a non-nil
  receiver \<^verbatim>\<open>d.Percentage()\<close> is a copy of the stored percentage.
\<close>

definition EffectivePrice :: "Product option \<Rightarrow> Time \<Rightarrow> Money option" where
  "EffectivePrice p at' =
     (case p of
        None \<Rightarrow> None
      | Some pp \<Rightarrow>
          (case basePrice pp of
             None \<Rightarrow> None
           | Some base \<Rightarrow>
               (case discount pp of
                  None \<Rightarrow> Some base
                | Some d \<Rightarrow>
                    if \<not> IsValidAt (Some d) at' then Some base
                    else MultiplyBy (Some base) (Some (1 - percentage d)))))"

subsection \<open>The apply-discount use case (package applydiscount)\<close>

text \<open>
  \<^verbatim>\<open>Interactor.Execute\<close> loads the aggregate, applies the discount, builds the commit plan
  and hands it to the committer. The repositories and the clock are interfaces and the
  committer wraps an external library, so they are parameters: what \<^verbatim>\<open>FindByID\<close> returns
  for an id, the mutations \<^verbatim>\<open>UpdateMut\<close> and the outbox's \<^verbatim>\<open>InsertMut\<close> return (\<open>None\<close>
  is a nil mutation), the error \<^verbatim>\<open>Apply\<close> returns for a plan (\<open>None\<close> is success) and the
  clock's reading. \<^verbatim>\<open>generateID\<close> reads the wall clock; \<open>GenerateID k\<close> is the id the
  \<open>k\<close>-th call returns. \<^verbatim>\<open>json.Marshal\<close> of an event is the parameter \<open>Marshal\<close>.
\<close>

record Request =
  ProductID :: string
  PercentageNumerator :: int64
  PercentageDenominator :: int64
  StartDate :: Time
  EndDate :: Time

record EnrichedEvent =
  EventID :: string
  EventType :: string
  AggregateID :: string
  Payload :: string
  Status :: string

record 'mut Interactor =
  FindByID :: "string \<Rightarrow> DomainError + Product"
  UpdateMut :: "Product \<Rightarrow> 'mut option"
  InsertMut :: "EnrichedEvent \<Rightarrow> 'mut option"
  Apply :: "'mut list \<Rightarrow> DomainError option"
  Now :: Time
  GenerateID :: "nat \<Rightarrow> string"
  Marshal :: "DomainEvent \<Rightarrow> string"

fun eventType :: "DomainEvent \<Rightarrow> string" where
  "eventType (DiscountAppliedEvent t i) = ''discount.applied''"
| "eventType e = ''unknown''"

definition enrichEvent :: "'mut Interactor \<Rightarrow> nat \<Rightarrow> string \<Rightarrow> DomainEvent \<Rightarrow> EnrichedEvent" where
  "enrichEvent it k aggregateID event =
     \<lparr>EventID = GenerateID it k, EventType = eventType event, AggregateID = aggregateID,
      Payload = Marshal it event, Status = ''pending''\<rparr>"

text \<open>The loop over \<^verbatim>\<open>product.DomainEvents()\<close>: one outbox mutation per event, added to the
  plan when it is not nil; \<open>k\<close> counts the calls of \<^verbatim>\<open>generateID\<close>.\<close>

fun addOutboxEvents ::
  "'mut Interactor \<Rightarrow> string \<Rightarrow> nat \<Rightarrow> DomainEvent list \<Rightarrow> 'mut list \<Rightarrow> 'mut list" where
  "addOutboxEvents it aggregateID k [] plan = plan"
| "addOutboxEvents it aggregateID k (event # rest) plan =
     (case InsertMut it (enrichEvent it k aggregateID event) of
        None \<Rightarrow> addOutboxEvents it aggregateID (Suc k) rest plan
      | Some outboxMut \<Rightarrow> addOutboxEvents it aggregateID (Suc k) rest (plan @ [outboxMut]))"

datatype GoPanic = DivisionByZero

text \<open>
  \<open>Execute\<close> returns the error of the Go function (\<open>None\<close> is nil) together with the
  aggregate it holds in memory when it returns (\<open>None\<close> when none was loaded); \<open>Inl\<close> is a
  panic: \<^verbatim>\<open>big.NewRat\<close> on a zero denominator.
\<close>

definition Execute ::
  "'mut Interactor \<Rightarrow> Request \<Rightarrow> GoPanic + (DomainError option \<times> Product option)" where
  "Execute it req =
     (case FindByID it (ProductID req) of
        Inl err \<Rightarrow> Inr (Some (Wrapf ''product not found: '' err), None)
      | Inr product \<Rightarrow>
          if sint (PercentageDenominator req) = 0 then Inl DivisionByZero
          else
            (case NewDiscount (Some (NewRat (PercentageNumerator req) (PercentageDenominator req)))
                    (StartDate req) (EndDate req) of
               Inl err \<Rightarrow> Inr (Some (Wrapf ''invalid discount: '' err), Some product)
             | Inr discount' \<Rightarrow>
                 (case ApplyDiscount product (Some discount') (Now it) of
                    (Some err, product) \<Rightarrow> Inr (Some err, Some product)
                  | (None, product) \<Rightarrow>
                      (let plan = (case UpdateMut it product of None \<Rightarrow> [] | Some mut \<Rightarrow> [mut]);
                           plan = addOutboxEvents it (id' product) 0 (DomainEvents product) plan
                       in case Apply it plan of
                            Some err \<Rightarrow> Inr (Some err, Some product)
                          | None \<Rightarrow> Inr (None, Some (ClearDomainEvents product))))))"

subsection \<open>Sequences of aggregate operations\<close>

text \<open>The six mutating methods of the aggregate as data, to speak of every operation and of
  every sequence of operations on one product.\<close>

datatype Operation =
    OpActivate Time
  | OpDeactivate Time
  | OpUpdateDetails string string string Time
  | OpApplyDiscount "Discount option" Time
  | OpRemoveDiscount Time
  | OpArchive Time

fun perform :: "Product \<Rightarrow> Operation \<Rightarrow> Product" where
  "perform p (OpActivate now) = Activate p now"
| "perform p (OpDeactivate now) = Deactivate p now"
| "perform p (OpUpdateDetails n d c now) = UpdateDetails p n d c now"
| "perform p (OpApplyDiscount d now) = snd (ApplyDiscount p d now)"
| "perform p (OpRemoveDiscount now) = RemoveDiscount p now"
| "perform p (OpArchive now) = Archive p now"

fun performAll :: "Product \<Rightarrow> Operation list \<Rightarrow> Product" where
  "performAll p [] = p"
| "performAll p (op # ops) = performAll (perform p op) ops"

section \<open>Properties\<close>

subsection \<open>Auxiliary facts\<close>

lemma div_gcd_bounds:
  fixes a b :: int
  assumes "0 < b"
  shows "min a 0 \<le> a div gcd a b" "a div gcd a b \<le> max a 0" "0 < b div gcd a b" "b div gcd a b \<le> b"
proof -
  let ?g = "gcd a b"
  have g0: "0 < ?g" using assms by (simp add: gcd_pos_int)
  then have g: "1 \<le> ?g" by linarith
  have gb: "?g \<le> b" using assms by (simp add: zdvd_imp_le)
  show "min a 0 \<le> a div ?g"
  proof (cases "0 \<le> a")
    case True
    then have "0 \<le> a div ?g" using g0 by (simp add: pos_imp_zdiv_nonneg_iff)
    then show ?thesis using True by simp
  next
    case False
    then have "a div 1 \<le> a div ?g" using g by (intro zdiv_mono2_neg) simp_all
    then show ?thesis using False by simp
  qed
  show "a div ?g \<le> max a 0"
  proof (cases "0 \<le> a")
    case True
    then have "a div ?g \<le> a div 1" using g by (intro zdiv_mono2) simp_all
    then show ?thesis using True by simp
  next
    case False
    then have "a div ?g < 0" using g0 by (simp add: div_neg_pos_less0)
    then show ?thesis by simp
  qed
  show "0 < b div ?g" using g0 gb by (simp add: pos_imp_zdiv_pos_iff)
  have "b div ?g \<le> b div 1" using assms g by (intro zdiv_mono2) simp_all
  then show "b div ?g \<le> b" by simp
qed

lemma sint_Int64: "- (2 ^ 63) \<le> k \<Longrightarrow> k < 2 ^ 63 \<Longrightarrow> sint (Int64 k) = k"
  unfolding Int64_def
  by (simp add: sint_sbintrunc' signed_take_bit_int_eq_self)

lemma quotient_of_Fract_pos:
  "0 < b \<Longrightarrow> quotient_of (Fract a b) = (a div gcd a b, b div gcd a b)"
  by (simp add: quotient_of_Fract Rat.normalize_def Let_def)

lemma Fraction_NewMoney:
  fixes n d :: int64
  assumes d: "0 < sint d"
  shows "Fraction (Some \<lparr>rat_value = Some (NewRat n d)\<rparr>) = (a, b) \<Longrightarrow>
         (sint a, sint b) = quotient_of (Fract (sint n) (sint d))"
proof -
  assume F: "Fraction (Some \<lparr>rat_value = Some (NewRat n d)\<rparr>) = (a, b)"
  let ?g = "gcd (sint n) (sint d)"
  have q: "quotient_of (Fract (sint n) (sint d)) = (sint n div ?g, sint d div ?g)"
    using d by (rule quotient_of_Fract_pos)
  have nb: "- (2 ^ 63) \<le> sint n" "sint n < 2 ^ 63" "sint d < 2 ^ 63"
    using sint_ge [of n] sint_lt [of n] sint_lt [of d] by simp_all
  have b1: "- (2 ^ 63) \<le> sint n div ?g" "sint n div ?g < 2 ^ 63"
    using div_gcd_bounds(1,2) [OF d, of "sint n"] nb by auto
  have b2: "- (2 ^ 63) \<le> sint d div ?g" "sint d div ?g < 2 ^ 63"
    using div_gcd_bounds(3,4) [OF d, of "sint n"] nb by auto
  have "a = Int64 (sint n div ?g)" "b = Int64 (sint d div ?g)"
    using F q by (simp_all add: Fraction_def NewRat_def Num_def Denom_def)
  then show ?thesis using q b1 b2 by (simp add: sint_Int64)
qed

lemma Cmp_cases: "Cmp x y = - 1 \<or> Cmp x y = 0 \<or> Cmp x y = 1"
  by (simp add: Cmp_def)

lemma nilMoney_Rat: "nilMoney m \<longleftrightarrow> Rat m = None"
  by (simp add: nilMoney_def Rat_def split: option.splits)

lemma Compare_Rat:
  "Compare m other =
     (case Rat m of
        None \<Rightarrow> (case Rat other of None \<Rightarrow> 0 | Some w \<Rightarrow> - 1)
      | Some v \<Rightarrow> (case Rat other of None \<Rightarrow> 1 | Some w \<Rightarrow> Cmp v w))"
  by (simp add: Compare_def Rat_def nilMoney_def split: option.splits)

lemmas status_defs = ProductStatusDraft_def ProductStatusActive_def ProductStatusInactive_def
  ProductStatusArchived_def

lemmas field_defs = FieldName_def FieldDescription_def FieldCategory_def FieldBasePrice_def
  FieldDiscount_def FieldStatus_def FieldArchivedAt_def

lemma Dirty_MarkDirty: "Dirty (MarkDirty ct f) g = (g = f \<or> Dirty ct g)"
  by (simp add: Dirty_def MarkDirty_def)

lemma Dirty_New: "Dirty NewChangeTracker f = False"
  by (simp add: Dirty_def NewChangeTracker_def)

lemma Dirty_Clear: "Dirty (Clear ct) f = False"
  by (simp add: Dirty_def Clear_def)

lemma IsValidAt_Some: "IsValidAt (Some d) t \<longleftrightarrow> startAt d \<le> t \<and> t \<le> endAt d"
  by (auto simp: IsValidAt_def Before_def After_def)

lemma perform_archived:
  assumes "status p = ProductStatusArchived"
  shows "status (perform p op) = ProductStatusArchived \<and> archivedAt (perform p op) = archivedAt p"
proof (cases op)
  case (OpUpdateDetails n d c now)
  then show ?thesis using assms by (simp add: UpdateDetails_def Let_def)
qed (use assms in \<open>simp_all add: Activate_def Deactivate_def Archive_def ApplyDiscount_def
       RemoveDiscount_def status_defs\<close>)

lemma performAll_archived:
  "status p = ProductStatusArchived \<Longrightarrow>
     status (performAll p ops) = ProductStatusArchived
     \<and> archivedAt (performAll p ops) = archivedAt p"
proof (induction ops arbitrary: p)
  case Nil
  then show ?case by simp
next
  case (Cons op ops)
  from perform_archived [OF Cons.prems, of op]
  have s: "status (perform p op) = ProductStatusArchived"
    and a: "archivedAt (perform p op) = archivedAt p" by simp_all
  from Cons.IH [OF s] a show ?case by simp
qed

lemma perform_lifecycle_status:
  assumes "status p = ProductStatusInactive \<or> status p = ProductStatusActive
           \<or> status p = ProductStatusArchived"
  shows "status (perform p op) = ProductStatusInactive \<or> status (perform p op) = ProductStatusActive
         \<or> status (perform p op) = ProductStatusArchived"
proof (cases op)
  case (OpUpdateDetails n d c now)
  then show ?thesis using assms by (simp add: UpdateDetails_def Let_def)
qed (use assms in \<open>auto simp: Activate_def Deactivate_def Archive_def ApplyDiscount_def
       RemoveDiscount_def\<close>)

lemma performAll_lifecycle_status:
  "status p = ProductStatusInactive \<or> status p = ProductStatusActive
     \<or> status p = ProductStatusArchived \<Longrightarrow>
   status (performAll p ops) = ProductStatusInactive
     \<or> status (performAll p ops) = ProductStatusActive
     \<or> status (performAll p ops) = ProductStatusArchived"
proof (induction ops arbitrary: p)
  case Nil
  then show ?case by simp
next
  case (Cons op ops)
  from Cons.IH [OF perform_lifecycle_status [OF Cons.prems, of op]] show ?case by simp
qed

lemma NewProduct_lifecycle_status:
  "status (performAll (NewProduct i n d c b t0) ops) = ProductStatusInactive
     \<or> status (performAll (NewProduct i n d c b t0) ops) = ProductStatusActive
     \<or> status (performAll (NewProduct i n d c b t0) ops) = ProductStatusArchived"
  by (rule performAll_lifecycle_status) (simp add: NewProduct_def Let_def)

lemma NewProduct_never_draft:
  "status (performAll (NewProduct i n d c b t0) ops) \<noteq> ProductStatusDraft"
  using NewProduct_lifecycle_status [of i n d c b t0 ops] by (auto simp: status_defs)

lemma Execute_commit:
  fixes it :: "'mut Interactor"
  assumes "FindByID it (ProductID req) = Inr p0"
    and "sint (PercentageDenominator req) \<noteq> 0"
    and "NewDiscount (Some (NewRat (PercentageNumerator req) (PercentageDenominator req)))
           (StartDate req) (EndDate req) = Inr d"
    and "ApplyDiscount p0 (Some d) (Now it) = (None, p1)"
  shows "Execute it req =
           (case Apply it (addOutboxEvents it (id' p1) 0 (events p1)
                    (case UpdateMut it p1 of None \<Rightarrow> [] | Some mut \<Rightarrow> [mut])) of
              Some err \<Rightarrow> Inr (Some err, Some p1)
            | None \<Rightarrow> Inr (None, Some (p1\<lparr>events := []\<rparr>)))"
  using assms by (auto simp: Execute_def Let_def ClearDomainEvents_def DomainEvents_def split: option.splits)

subsection \<open>Money\<close>

text \<open>
  Claim C8. For every \<^verbatim>\<open>int64\<close> numerator \<open>n\<close> and positive denominator \<open>d\<close>,
  \<open>NewMoneyFromFraction n d\<close> succeeds and \<open>Fraction\<close> of the result is the pair \<open>(a, b)\<close>
  in lowest terms (\<open>b\<close> positive, \<open>a\<close> and \<open>b\<close> coprime) with \<open>a / b = n / d\<close>: the
  truncation to \<^verbatim>\<open>int64\<close> in \<open>Fraction\<close> loses nothing there. For every \<^verbatim>\<open>*Money\<close> \<open>m\<close>
  (nil and nil-valued included) and every rational \<open>r \<noteq> 0\<close>, multiplying by \<open>r\<close> and then
  by \<open>1 / r\<close> gives back the rational value of \<open>m\<close> exactly, and \<open>Compare\<close> finds the two
  equal.
\<close>

theorem Money_roundtrip:
  fixes n d :: int64 and m :: "Money option" and r :: rat
  shows "(0 < sint d \<longrightarrow>
           (\<exists>mm a b. NewMoneyFromFraction n d = Inr mm \<and> Fraction (Some mm) = (a, b)
              \<and> 0 < sint b \<and> coprime (sint a) (sint b)
              \<and> Fract (sint a) (sint b) = Fract (sint n) (sint d)
              \<and> Rat (Some mm) = Some (Fract (sint a) (sint b))))
       \<and> (r \<noteq> 0 \<longrightarrow>
            Rat (MultiplyBy (MultiplyBy m (Some r)) (Some (1 / r))) = Rat m
          \<and> Compare (MultiplyBy (MultiplyBy m (Some r)) (Some (1 / r))) m = 0)"
proof (intro conjI impI)
  assume d: "0 < sint d"
  obtain a b where F: "Fraction (Some \<lparr>rat_value = Some (NewRat n d)\<rparr>) = (a, b)"
    by (cases "Fraction (Some \<lparr>rat_value = Some (NewRat n d)\<rparr>)") 
  have q: "quotient_of (Fract (sint n) (sint d)) = (sint a, sint b)"
    using Fraction_NewMoney [OF d F] by simp
  have "0 < sint b" using q by (rule quotient_of_denom_pos)
  moreover have "coprime (sint a) (sint b)" using q by (rule quotient_of_coprime)
  moreover have e: "Fract (sint a) (sint b) = Fract (sint n) (sint d)" using q by (rule quotient_of_eq)
  moreover have "NewMoneyFromFraction n d = Inr \<lparr>rat_value = Some (NewRat n d)\<rparr>"
    using d by (simp add: NewMoneyFromFraction_def)
  moreover have "Rat (Some \<lparr>rat_value = Some (NewRat n d)\<rparr>) = Some (Fract (sint a) (sint b))"
    using e by (simp add: Rat_def NewRat_def)
  ultimately show "\<exists>mm a b. NewMoneyFromFraction n d = Inr mm \<and> Fraction (Some mm) = (a, b)
              \<and> 0 < sint b \<and> coprime (sint a) (sint b)
              \<and> Fract (sint a) (sint b) = Fract (sint n) (sint d)
              \<and> Rat (Some mm) = Some (Fract (sint a) (sint b))"
    using F by blast
next
  assume r: "r \<noteq> 0"
  show R: "Rat (MultiplyBy (MultiplyBy m (Some r)) (Some (1 / r))) = Rat m"
    using r by (simp add: MultiplyBy_def Rat_def split: option.splits)
  show "Compare (MultiplyBy (MultiplyBy m (Some r)) (Some (1 / r))) m = 0"
    using R by (simp add: Compare_Rat Cmp_def split: option.splits)
qed

theorem Money_roundtrip_witness:
  "0 < sint (100 :: int64) \<and> (3 :: rat) \<noteq> 0
   \<and> (\<exists>mm a b. NewMoneyFromFraction 1999 100 = Inr mm \<and> Fraction (Some mm) = (a, b)
              \<and> 0 < sint b \<and> coprime (sint a) (sint b)
              \<and> Fract (sint a) (sint b) = Fract (sint (1999 :: int64)) (sint (100 :: int64))
              \<and> Rat (Some mm) = Some (Fract (sint a) (sint b)))
   \<and> Rat (MultiplyBy (MultiplyBy (Some \<lparr>rat_value = Some 7\<rparr>) (Some 3)) (Some (1 / 3)))
       = Rat (Some \<lparr>rat_value = Some 7\<rparr>)"
  using Money_roundtrip [of 100 1999 3 "Some \<lparr>rat_value = Some 7\<rparr>"]
  by simp

text \<open>
  Claim C10. The Money operations are total functions of their (possibly nil) receiver and
  arguments, with no panic among their outcomes. \<open>Compare\<close> returns \<open>-1\<close>, \<open>0\<close> or \<open>1\<close>; it
  is reflexive, antisymmetric (\<open>Compare m other = - Compare other m\<close>, and \<open>0\<close> exactly
  when both hold the same rational or both hold none), transitive and total; a nil or
  nil-valued Money (\<open>nilMoney\<close>) compares equal to every nil or nil-valued Money and
  strictly below every other one. \<open>Fraction\<close> of a nil or nil-valued Money is \<open>(0, 1)\<close>.
  \<open>MultiplyBy\<close> returns nil exactly when the receiver is nil or nil-valued or the ratio
  is nil, and \<open>Subtract\<close> exactly when one of the two operands is nil or nil-valued;
  \<open>Rat\<close> returns nil on exactly the nil and nil-valued receivers and \<open>NewMoneyFromRat\<close>
  nil on a nil argument.
\<close>

theorem Money_nil_safe:
  fixes m other k :: "Money option" and ratio :: "rat option"
  shows "(Compare m other = - 1 \<or> Compare m other = 0 \<or> Compare m other = 1)
    \<and> Compare m m = 0
    \<and> Compare m other = - Compare other m
    \<and> (Compare m other \<le> 0 \<and> Compare other k \<le> 0 \<longrightarrow> Compare m k \<le> 0)
    \<and> (Compare m other = 0 \<longleftrightarrow> Rat m = Rat other)
    \<and> (nilMoney m \<longrightarrow> Compare m other = (if nilMoney other then 0 else - 1))
    \<and> (nilMoney m \<longrightarrow> Fraction m = (0, 1))
    \<and> (MultiplyBy m ratio = None \<longleftrightarrow> nilMoney m \<or> ratio = None)
    \<and> (Subtract m other = None \<longleftrightarrow> nilMoney m \<or> nilMoney other)
    \<and> (Rat m = None \<longleftrightarrow> nilMoney m)
    \<and> NewMoneyFromRat None = None"
proof -
  have 1: "Compare m other = - 1 \<or> Compare m other = 0 \<or> Compare m other = 1"
    using Cmp_cases by (auto simp: Compare_Rat split: option.splits)
  have 2: "Compare m m = 0"
    by (simp add: Compare_Rat Cmp_def split: option.splits)
  have 3: "Compare m other = - Compare other m"
    by (auto simp: Compare_Rat Cmp_def split: option.splits)
  have 4: "Compare m other \<le> 0 \<and> Compare other k \<le> 0 \<longrightarrow> Compare m k \<le> 0"
    by (auto simp: Compare_Rat Cmp_def split: option.splits if_splits)
  have 5: "Compare m other = 0 \<longleftrightarrow> Rat m = Rat other"
    by (auto simp: Compare_Rat Cmp_def split: option.splits if_splits)
  have 6: "nilMoney m \<longrightarrow> Compare m other = (if nilMoney other then 0 else - 1)"
    by (auto simp: Compare_Rat nilMoney_Rat split: option.splits)
  have 7: "nilMoney m \<longrightarrow> Fraction m = (0, 1)"
    by (auto simp: Fraction_def nilMoney_def split: option.splits)
  have 8: "MultiplyBy m ratio = None \<longleftrightarrow> nilMoney m \<or> ratio = None"
    by (auto simp: MultiplyBy_def nilMoney_def split: option.splits)
  have 9: "Subtract m other = None \<longleftrightarrow> nilMoney m \<or> nilMoney other"
    by (auto simp: Subtract_def nilMoney_def split: option.splits)
  have 10: "Rat m = None \<longleftrightarrow> nilMoney m"
    by (simp add: nilMoney_Rat)
  have 11: "NewMoneyFromRat None = None"
    by (simp add: NewMoneyFromRat_def)
  from 1 2 3 4 5 6 7 8 9 10 11 show ?thesis by blast
qed

theorem Money_nil_safe_witness:
  "nilMoney (Some \<lparr>rat_value = None\<rparr>)
   \<and> Compare (Some \<lparr>rat_value = None\<rparr>) (Some \<lparr>rat_value = Some 3\<rparr>) = - 1
   \<and> Compare (Some \<lparr>rat_value = None\<rparr>) None = 0
   \<and> Fraction (Some \<lparr>rat_value = None\<rparr>) = (0, 1)
   \<and> Compare None (Some \<lparr>rat_value = Some 3\<rparr>) \<le> 0
   \<and> Compare (Some \<lparr>rat_value = Some 3\<rparr>) (Some \<lparr>rat_value = Some 5\<rparr>) \<le> 0
   \<and> Compare None (Some \<lparr>rat_value = Some 5\<rparr>) \<le> 0"
  using Money_nil_safe [of "Some \<lparr>rat_value = None\<rparr>" "Some \<lparr>rat_value = Some 3\<rparr>"]
    Money_nil_safe [of "Some \<lparr>rat_value = None\<rparr>" None]
    Money_nil_safe [of None "Some \<lparr>rat_value = Some 3\<rparr>" "Some \<lparr>rat_value = Some 5\<rparr>"]
  by (simp add: nilMoney_def Compare_def Cmp_def)

subsection \<open>Discount\<close>

text \<open>
  Claim C9. For a percentage \<open>q\<close>, \<open>NewDiscount\<close> fails exactly when \<open>q\<close> lies outside
  \<open>[0, 1]\<close> or the end precedes the start: outside the interval with the error
  "discount percentage must be between 0 and 1" (an unnamed \<^verbatim>\<open>fmt.Errorf\<close> error), and
  inside it with \<open>ErrInvalidDiscountPeriod\<close> when the end precedes the start; otherwise it
  builds the discount from the three arguments. A nil percentage is refused as well.
  For every discount \<open>d0\<close> and time \<open>t\<close>, \<open>IsValidAt\<close> holds exactly when
  \<open>startAt d0 \<le> t \<le> endAt d0\<close>, and on a nil discount it is false at every time.
\<close>

theorem NewDiscount_IsValidAt:
  fixes q :: rat and start end' t :: Time and d0 :: Discount
  shows "((\<exists>err. NewDiscount (Some q) start end' = Inl err) \<longleftrightarrow>
            q < 0 \<or> 1 < q \<or> end' < start)
    \<and> (q < 0 \<or> 1 < q \<longrightarrow>
          NewDiscount (Some q) start end'
            = Inl (Errorf ''discount percentage must be between 0 and 1''))
    \<and> (0 \<le> q \<and> q \<le> 1 \<and> end' < start \<longrightarrow>
          NewDiscount (Some q) start end' = Inl ErrInvalidDiscountPeriod)
    \<and> (0 \<le> q \<and> q \<le> 1 \<and> start \<le> end' \<longrightarrow>
          (\<exists>d. NewDiscount (Some q) start end' = Inr d
             \<and> percentage d = q \<and> startAt d = start \<and> endAt d = end'
             \<and> (IsValidAt (Some d) t \<longleftrightarrow> start \<le> t \<and> t \<le> end')))
    \<and> NewDiscount None start end' = Inl (Errorf ''discount percentage is required'')
    \<and> (IsValidAt (Some d0) t \<longleftrightarrow> startAt d0 \<le> t \<and> t \<le> endAt d0)
    \<and> \<not> IsValidAt None t"
proof -
  have 1: "(\<exists>err. NewDiscount (Some q) start end' = Inl err) \<longleftrightarrow>
            q < 0 \<or> 1 < q \<or> end' < start"
    by (auto simp: NewDiscount_def Cmp_def Before_def)
  have 2: "q < 0 \<or> 1 < q \<longrightarrow>
          NewDiscount (Some q) start end'
            = Inl (Errorf ''discount percentage must be between 0 and 1'')"
    by (auto simp: NewDiscount_def Cmp_def)
  have 3: "0 \<le> q \<and> q \<le> 1 \<and> end' < start \<longrightarrow>
          NewDiscount (Some q) start end' = Inl ErrInvalidDiscountPeriod"
    by (auto simp: NewDiscount_def Cmp_def Before_def)
  have 4: "0 \<le> q \<and> q \<le> 1 \<and> start \<le> end' \<longrightarrow>
          (\<exists>d. NewDiscount (Some q) start end' = Inr d
             \<and> percentage d = q \<and> startAt d = start \<and> endAt d = end'
             \<and> (IsValidAt (Some d) t \<longleftrightarrow> start \<le> t \<and> t \<le> end'))"
    by (auto simp: NewDiscount_def Cmp_def Before_def IsValidAt_Some)
  have 5: "NewDiscount None start end' = Inl (Errorf ''discount percentage is required'')"
    by (simp add: NewDiscount_def)
  have 6: "\<not> IsValidAt None t" by (simp add: IsValidAt_def)
  from 1 2 3 4 5 6 IsValidAt_Some [of d0 t] show ?thesis by blast
qed

theorem NewDiscount_IsValidAt_witness:
  "((3 / 2 :: rat) < 0 \<or> 1 < (3 / 2 :: rat))
   \<and> NewDiscount (Some (3 / 2)) 10 20
       = Inl (Errorf ''discount percentage must be between 0 and 1'')
   \<and> (0 \<le> (1 / 5 :: rat) \<and> (1 / 5 :: rat) \<le> 1 \<and> (10 :: Time) < 20)
   \<and> NewDiscount (Some (1 / 5)) 20 10 = Inl ErrInvalidDiscountPeriod
   \<and> (\<exists>d. NewDiscount (Some (1 / 5)) 10 20 = Inr d
          \<and> percentage d = 1 / 5 \<and> startAt d = 10 \<and> endAt d = 20 \<and> IsValidAt (Some d) 15)"
  using NewDiscount_IsValidAt [where q = "3 / 2" and start = 10 and end' = 20]
    NewDiscount_IsValidAt [where q = "1 / 5" and start = 20 and end' = 10]
    NewDiscount_IsValidAt [where q = "1 / 5" and start = 10 and end' = 20 and t = 15]
  by simp

subsection \<open>The aggregate\<close>

text \<open>
  Claim C7. \<open>NewProduct\<close> returns, for every input, a product whose status is Inactive and
  whose pending events are exactly one Created event (at the creation time, for the
  product's id). \<open>RehydrateProduct\<close> returns, for every persisted state, a product with no
  pending event and with no field dirty.
\<close>

theorem constructors_events_and_flags:
  "status (NewProduct i n d c b now) = ProductStatusInactive
   \<and> DomainEvents (NewProduct i n d c b now) = [ProductCreatedEvent now i]
   \<and> DomainEvents (RehydrateProduct i n d c b disc st arch created updated) = []
   \<and> (\<forall>f. \<not> Dirty (changes (RehydrateProduct i n d c b disc st arch created updated)) f)"
  by (simp add: NewProduct_def RehydrateProduct_def DomainEvents_def Dirty_New Let_def)

text \<open>
  Claim C4. \<open>ApplyDiscount\<close> returns \<open>ErrProductNotActive\<close> exactly when the status is not
  Active, and \<open>ErrInvalidDiscountPeriod\<close> exactly when the status is Active and the
  discount is nil or not valid at \<open>now\<close>. Whenever it returns an error the product is
  left as it was: fields, pending events and dirty flags. When it succeeds the discount
  is the new one (whatever discount was there before), \<open>updatedAt\<close> is \<open>now\<close>, the
  discount field is dirty and no other flag has changed, exactly one DiscountApplied event
  has been appended, and the other fields are unchanged.
\<close>

theorem ApplyDiscount_outcomes:
  fixes p :: Product and d :: "Discount option" and now :: Time
  shows "(fst (ApplyDiscount p d now) = Some ErrProductNotActive
            \<longleftrightarrow> status p \<noteq> ProductStatusActive)
    \<and> (fst (ApplyDiscount p d now) = Some ErrInvalidDiscountPeriod
            \<longleftrightarrow> status p = ProductStatusActive \<and> (d = None \<or> \<not> IsValidAt d now))
    \<and> (fst (ApplyDiscount p d now) = None
            \<longleftrightarrow> status p = ProductStatusActive \<and> d \<noteq> None \<and> IsValidAt d now)
    \<and> (fst (ApplyDiscount p d now) \<noteq> None \<longrightarrow> snd (ApplyDiscount p d now) = p)
    \<and> (fst (ApplyDiscount p d now) = None \<longrightarrow>
          discount (snd (ApplyDiscount p d now)) = d
        \<and> updatedAt (snd (ApplyDiscount p d now)) = now
        \<and> Dirty (changes (snd (ApplyDiscount p d now))) FieldDiscount
        \<and> (\<forall>f. f \<noteq> FieldDiscount \<longrightarrow>
              Dirty (changes (snd (ApplyDiscount p d now))) f = Dirty (changes p) f)
        \<and> events (snd (ApplyDiscount p d now)) = events p @ [DiscountAppliedEvent now (id' p)]
        \<and> snd (ApplyDiscount p d now)
            = p\<lparr>discount := d, updatedAt := now,
                 changes := changes (snd (ApplyDiscount p d now)),
                 events := events (snd (ApplyDiscount p d now))\<rparr>)"
  by (simp add: ApplyDiscount_def Dirty_MarkDirty)

theorem ApplyDiscount_outcomes_witness:
  "fst (ApplyDiscount (RehydrateProduct ''p1'' ''n'' ''d'' ''c'' None None ProductStatusInactive
          None 0 0) (Some \<lparr>percentage = 1 / 5, startAt = 10, endAt = 20\<rparr>) 15)
     = Some ErrProductNotActive
   \<and> snd (ApplyDiscount (RehydrateProduct ''p1'' ''n'' ''d'' ''c'' None None ProductStatusInactive
          None 0 0) (Some \<lparr>percentage = 1 / 5, startAt = 10, endAt = 20\<rparr>) 15)
     = RehydrateProduct ''p1'' ''n'' ''d'' ''c'' None None ProductStatusInactive None 0 0
   \<and> fst (ApplyDiscount (RehydrateProduct ''p1'' ''n'' ''d'' ''c'' None None ProductStatusActive
          None 0 0) (Some \<lparr>percentage = 1 / 5, startAt = 10, endAt = 20\<rparr>) 15) = None
   \<and> events (snd (ApplyDiscount (RehydrateProduct ''p1'' ''n'' ''d'' ''c'' None None
          ProductStatusActive None 0 0) (Some \<lparr>percentage = 1 / 5, startAt = 10, endAt = 20\<rparr>) 15))
     = [DiscountAppliedEvent 15 ''p1'']
   \<and> Dirty (changes (snd (ApplyDiscount (RehydrateProduct ''p1'' ''n'' ''d'' ''c'' None None
          ProductStatusActive None 0 0) (Some \<lparr>percentage = 1 / 5, startAt = 10, endAt = 20\<rparr>) 15)))
        FieldDiscount"
  using ApplyDiscount_outcomes [of "RehydrateProduct ''p1'' ''n'' ''d'' ''c'' None None
          ProductStatusInactive None 0 0" "Some \<lparr>percentage = 1 / 5, startAt = 10, endAt = 20\<rparr>" 15]
    ApplyDiscount_outcomes [of "RehydrateProduct ''p1'' ''n'' ''d'' ''c'' None None
          ProductStatusActive None 0 0" "Some \<lparr>percentage = 1 / 5, startAt = 10, endAt = 20\<rparr>" 15]
  by (simp add: RehydrateProduct_def status_defs IsValidAt_Some)

text \<open>
  Claim C6. \<open>UpdateDetails\<close> replaces exactly those of name, description and category whose
  supplied value is non-empty and differs from the current one, and marks exactly those
  fields dirty (the other flags keep their value). If at least one of the three changed
  it sets \<open>updatedAt\<close> to \<open>now\<close> and appends exactly one Updated event; otherwise it
  returns the product as it was. No other field is touched.
\<close>

theorem UpdateDetails_changes:
  fixes p :: Product and n d c :: string and now :: Time
  shows "name (UpdateDetails p n d c now) = (if n \<noteq> [] \<and> n \<noteq> name p then n else name p)
    \<and> description (UpdateDetails p n d c now)
        = (if d \<noteq> [] \<and> d \<noteq> description p then d else description p)
    \<and> category (UpdateDetails p n d c now)
        = (if c \<noteq> [] \<and> c \<noteq> category p then c else category p)
    \<and> (\<forall>f. Dirty (changes (UpdateDetails p n d c now)) f
          = (Dirty (changes p) f
             \<or> f = FieldName \<and> n \<noteq> [] \<and> n \<noteq> name p
             \<or> f = FieldDescription \<and> d \<noteq> [] \<and> d \<noteq> description p
             \<or> f = FieldCategory \<and> c \<noteq> [] \<and> c \<noteq> category p))
    \<and> events (UpdateDetails p n d c now)
        = (if (n \<noteq> [] \<and> n \<noteq> name p) \<or> (d \<noteq> [] \<and> d \<noteq> description p)
              \<or> (c \<noteq> [] \<and> c \<noteq> category p)
           then events p @ [ProductUpdatedEvent now (id' p)] else events p)
    \<and> updatedAt (UpdateDetails p n d c now)
        = (if (n \<noteq> [] \<and> n \<noteq> name p) \<or> (d \<noteq> [] \<and> d \<noteq> description p)
              \<or> (c \<noteq> [] \<and> c \<noteq> category p)
           then now else updatedAt p)
    \<and> (\<not> ((n \<noteq> [] \<and> n \<noteq> name p) \<or> (d \<noteq> [] \<and> d \<noteq> description p)
              \<or> (c \<noteq> [] \<and> c \<noteq> category p))
          \<longrightarrow> UpdateDetails p n d c now = p)
    \<and> UpdateDetails p n d c now
        = p\<lparr>name := name (UpdateDetails p n d c now),
             description := description (UpdateDetails p n d c now),
             category := category (UpdateDetails p n d c now),
             updatedAt := updatedAt (UpdateDetails p n d c now),
             changes := changes (UpdateDetails p n d c now),
             events := events (UpdateDetails p n d c now)\<rparr>"
  by (auto simp: UpdateDetails_def Dirty_MarkDirty Let_def field_defs)

theorem UpdateDetails_changes_witness:
  "name (UpdateDetails (RehydrateProduct ''p1'' ''Old'' ''desc'' ''cat'' None None
           ProductStatusActive None 0 0) ''New'' [] ''cat'' 9) = ''New''
   \<and> description (UpdateDetails (RehydrateProduct ''p1'' ''Old'' ''desc'' ''cat'' None None
           ProductStatusActive None 0 0) ''New'' [] ''cat'' 9) = ''desc''
   \<and> Dirty (changes (UpdateDetails (RehydrateProduct ''p1'' ''Old'' ''desc'' ''cat'' None None
           ProductStatusActive None 0 0) ''New'' [] ''cat'' 9)) FieldName
   \<and> \<not> Dirty (changes (UpdateDetails (RehydrateProduct ''p1'' ''Old'' ''desc'' ''cat'' None None
           ProductStatusActive None 0 0) ''New'' [] ''cat'' 9)) FieldCategory
   \<and> events (UpdateDetails (RehydrateProduct ''p1'' ''Old'' ''desc'' ''cat'' None None
           ProductStatusActive None 0 0) ''New'' [] ''cat'' 9) = [ProductUpdatedEvent 9 ''p1'']
   \<and> UpdateDetails (RehydrateProduct ''p1'' ''Old'' ''desc'' ''cat'' None None
           ProductStatusActive None 0 0) ''Old'' [] ''cat'' 9
       = RehydrateProduct ''p1'' ''Old'' ''desc'' ''cat'' None None ProductStatusActive None 0 0"
  using UpdateDetails_changes [of "RehydrateProduct ''p1'' ''Old'' ''desc'' ''cat'' None None
           ProductStatusActive None 0 0" "''New''" "[]" "''cat''" 9]
    UpdateDetails_changes [of "RehydrateProduct ''p1'' ''Old'' ''desc'' ''cat'' None None
           ProductStatusActive None 0 0" "''Old''" "[]" "''cat''" 9]
  by (simp add: RehydrateProduct_def Dirty_New field_defs)

text \<open>
  Claim C5. The lifecycle has three states, Inactive, Active and Archived: \<open>NewProduct\<close>
  starts in Inactive, the operations only ever set one of the three
  (\<open>NewProduct_lifecycle_status\<close>), and the repository stores the status it reads from the
  aggregate. For every product \<open>p\<close> in one of them and every time \<open>now\<close>: \<open>Activate\<close> sets
  the status to Active, sets \<open>updatedAt\<close> to \<open>now\<close>, marks the status dirty and appends
  exactly one Activated event exactly when \<open>p\<close> was Inactive (no other field or flag
  changes then), and changes nothing when \<open>p\<close> is Active or Archived. \<open>Deactivate\<close> is
  symmetric: it does the same towards Inactive, with one Deactivated event, exactly when
  \<open>p\<close> was Active, and changes nothing on an Inactive or Archived product. \<open>Archive\<close> of a
  product that is not Archived sets the status to Archived, \<open>archivedAt\<close> and \<open>updatedAt\<close>
  to \<open>now\<close> and marks status and archived-at dirty; on an Archived product it changes
  nothing, so archiving twice is archiving once; it never appends an event; and once a
  product is archived no sequence of aggregate operations changes its status or its
  \<open>archivedAt\<close> again.
\<close>

theorem lifecycle_transitions:
  fixes p :: Product and now now' :: Time and ops :: "Operation list"
  assumes st: "status p = ProductStatusInactive \<or> status p = ProductStatusActive
               \<or> status p = ProductStatusArchived"
  shows
    "(status (Activate p now) = ProductStatusActive
        \<and> updatedAt (Activate p now) = now
        \<and> Dirty (changes (Activate p now)) FieldStatus
        \<and> events (Activate p now) = events p @ [ProductActivatedEvent now (id' p)]
      \<longleftrightarrow> status p = ProductStatusInactive)
   \<and> (status p = ProductStatusInactive \<longrightarrow>
        (\<forall>f. Dirty (changes (Activate p now)) f = (f = FieldStatus \<or> Dirty (changes p) f))
      \<and> Activate p now
          = p\<lparr>status := ProductStatusActive, updatedAt := now,
               changes := changes (Activate p now), events := events (Activate p now)\<rparr>)
   \<and> (status p = ProductStatusActive \<or> status p = ProductStatusArchived \<longrightarrow>
        Activate p now = p)
   \<and> (status (Deactivate p now) = ProductStatusInactive
        \<and> updatedAt (Deactivate p now) = now
        \<and> Dirty (changes (Deactivate p now)) FieldStatus
        \<and> events (Deactivate p now) = events p @ [ProductDeactivatedEvent now (id' p)]
      \<longleftrightarrow> status p = ProductStatusActive)
   \<and> (status p = ProductStatusActive \<longrightarrow>
        (\<forall>f. Dirty (changes (Deactivate p now)) f = (f = FieldStatus \<or> Dirty (changes p) f))
      \<and> Deactivate p now
          = p\<lparr>status := ProductStatusInactive, updatedAt := now,
               changes := changes (Deactivate p now), events := events (Deactivate p now)\<rparr>)
   \<and> (status p = ProductStatusInactive \<or> status p = ProductStatusArchived \<longrightarrow>
        Deactivate p now = p)
   \<and> (status p \<noteq> ProductStatusArchived \<longrightarrow>
        status (Archive p now) = ProductStatusArchived
      \<and> archivedAt (Archive p now) = Some now
      \<and> updatedAt (Archive p now) = now
      \<and> (\<forall>f. Dirty (changes (Archive p now)) f
            = (f = FieldStatus \<or> f = FieldArchivedAt \<or> Dirty (changes p) f))
      \<and> Archive p now
          = p\<lparr>status := ProductStatusArchived, archivedAt := Some now, updatedAt := now,
               changes := changes (Archive p now)\<rparr>)
   \<and> (status p = ProductStatusArchived \<longrightarrow> Archive p now = p)
   \<and> Archive (Archive p now) now' = Archive p now
   \<and> events (Archive p now) = events p
   \<and> archivedAt (performAll (Archive p now) ops) = archivedAt (Archive p now)
   \<and> status (performAll (Archive p now) ops) = ProductStatusArchived"
proof -
  have ne: "ProductStatusInactive \<noteq> ProductStatusActive"
    "ProductStatusInactive \<noteq> ProductStatusArchived"
    "ProductStatusActive \<noteq> ProductStatusArchived"
    by (simp_all add: status_defs)
  have A: "status (Archive p now) = ProductStatusArchived"
    by (simp add: Archive_def)
  have 1: "status (Activate p now) = ProductStatusActive
        \<and> updatedAt (Activate p now) = now
        \<and> Dirty (changes (Activate p now)) FieldStatus
        \<and> events (Activate p now) = events p @ [ProductActivatedEvent now (id' p)]
      \<longleftrightarrow> status p = ProductStatusInactive"
    using st ne by (auto simp: Activate_def Dirty_MarkDirty)
  have 2: "status p = ProductStatusInactive \<longrightarrow>
        (\<forall>f. Dirty (changes (Activate p now)) f = (f = FieldStatus \<or> Dirty (changes p) f))
      \<and> Activate p now
          = p\<lparr>status := ProductStatusActive, updatedAt := now,
               changes := changes (Activate p now), events := events (Activate p now)\<rparr>"
    using ne by (simp add: Activate_def Dirty_MarkDirty)
  have 3: "status p = ProductStatusActive \<or> status p = ProductStatusArchived \<longrightarrow>
        Activate p now = p"
    by (auto simp: Activate_def)
  have 4: "status (Deactivate p now) = ProductStatusInactive
        \<and> updatedAt (Deactivate p now) = now
        \<and> Dirty (changes (Deactivate p now)) FieldStatus
        \<and> events (Deactivate p now) = events p @ [ProductDeactivatedEvent now (id' p)]
      \<longleftrightarrow> status p = ProductStatusActive"
    using st ne by (auto simp: Deactivate_def Dirty_MarkDirty)
  have 5: "status p = ProductStatusActive \<longrightarrow>
        (\<forall>f. Dirty (changes (Deactivate p now)) f = (f = FieldStatus \<or> Dirty (changes p) f))
      \<and> Deactivate p now
          = p\<lparr>status := ProductStatusInactive, updatedAt := now,
               changes := changes (Deactivate p now), events := events (Deactivate p now)\<rparr>"
    using ne by (simp add: Deactivate_def Dirty_MarkDirty)
  have 6: "status p = ProductStatusInactive \<or> status p = ProductStatusArchived \<longrightarrow>
        Deactivate p now = p"
    by (auto simp: Deactivate_def)
  have 7: "status p \<noteq> ProductStatusArchived \<longrightarrow>
        status (Archive p now) = ProductStatusArchived
      \<and> archivedAt (Archive p now) = Some now
      \<and> updatedAt (Archive p now) = now
      \<and> (\<forall>f. Dirty (changes (Archive p now)) f
            = (f = FieldStatus \<or> f = FieldArchivedAt \<or> Dirty (changes p) f))
      \<and> Archive p now
          = p\<lparr>status := ProductStatusArchived, archivedAt := Some now, updatedAt := now,
               changes := changes (Archive p now)\<rparr>"
    by (auto simp: Archive_def Dirty_MarkDirty)
  have 8: "status p = ProductStatusArchived \<longrightarrow> Archive p now = p"
    by (simp add: Archive_def)
  have 9: "Archive (Archive p now) now' = Archive p now"
    by (simp add: Archive_def)
  have 10: "events (Archive p now) = events p"
    by (simp add: Archive_def)
  note 11 = performAll_archived [OF A, of ops]
  from 1 2 3 4 5 6 7 8 9 10 11 show ?thesis by blast
qed

theorem lifecycle_transitions_witness:
  "status (NewProduct ''p1'' ''n'' ''d'' ''c'' None 3) = ProductStatusInactive
   \<and> status (Activate (NewProduct ''p1'' ''n'' ''d'' ''c'' None 3) 7) = ProductStatusActive
   \<and> events (Activate (NewProduct ''p1'' ''n'' ''d'' ''c'' None 3) 7)
       = [ProductCreatedEvent 3 ''p1'', ProductActivatedEvent 7 ''p1'']
   \<and> Activate (Activate (NewProduct ''p1'' ''n'' ''d'' ''c'' None 3) 7) 8
       = Activate (NewProduct ''p1'' ''n'' ''d'' ''c'' None 3) 7
   \<and> status (Deactivate (Activate (NewProduct ''p1'' ''n'' ''d'' ''c'' None 3) 7) 8)
       = ProductStatusInactive
   \<and> Deactivate (NewProduct ''p1'' ''n'' ''d'' ''c'' None 3) 7
       = NewProduct ''p1'' ''n'' ''d'' ''c'' None 3
   \<and> status (Archive (NewProduct ''p1'' ''n'' ''d'' ''c'' None 3) 7) = ProductStatusArchived
   \<and> archivedAt (Archive (NewProduct ''p1'' ''n'' ''d'' ''c'' None 3) 7) = Some 7
   \<and> Archive (Archive (NewProduct ''p1'' ''n'' ''d'' ''c'' None 3) 7) 9
       = Archive (NewProduct ''p1'' ''n'' ''d'' ''c'' None 3) 7
   \<and> Activate (Archive (NewProduct ''p1'' ''n'' ''d'' ''c'' None 3) 7) 9
       = Archive (NewProduct ''p1'' ''n'' ''d'' ''c'' None 3) 7"
proof -
  let ?p = "NewProduct ''p1'' ''n'' ''d'' ''c'' None 3"
  have s: "status ?p = ProductStatusInactive" "events ?p = [ProductCreatedEvent 3 ''p1'']"
    "id' ?p = ''p1''"
    by (simp_all add: NewProduct_def Let_def)
  have sa: "status (Activate ?p 7) = ProductStatusActive"
    using s by (simp add: Activate_def status_defs)
  have sr: "status (Archive ?p 7) = ProductStatusArchived"
    by (simp add: Archive_def)
  have h1: "status ?p = ProductStatusInactive \<or> status ?p = ProductStatusActive
            \<or> status ?p = ProductStatusArchived" using s by simp
  have h2: "status (Activate ?p 7) = ProductStatusInactive
            \<or> status (Activate ?p 7) = ProductStatusActive
            \<or> status (Activate ?p 7) = ProductStatusArchived" using sa by simp
  have h3: "status (Archive ?p 7) = ProductStatusInactive
            \<or> status (Archive ?p 7) = ProductStatusActive
            \<or> status (Archive ?p 7) = ProductStatusArchived" using sr by simp
  show ?thesis
    using lifecycle_transitions [OF h1, where now = 7 and now' = 9 and ops = "[]"]
      lifecycle_transitions [OF h2, where now = 8 and now' = 9 and ops = "[]"]
      lifecycle_transitions [OF h3, where now = 9 and now' = 9 and ops = "[]"]
      s sa sr
    by (simp add: status_defs)
qed

text \<open>
  Claim C1 does not hold of the code. \<open>UpdateDetails\<close> and \<open>RemoveDiscount\<close> do not test
  the status: on an Archived product \<open>UpdateDetails\<close> with a new name replaces the name,
  stamps \<open>updatedAt\<close> and appends an Updated event, and \<open>RemoveDiscount\<close> clears the
  discount, stamps \<open>updatedAt\<close> and appends a DiscountRemoved event.
\<close>

theorem archived_product_is_updated:
  "status (RehydrateProduct ''p1'' ''Old'' ''d'' ''c'' (Some \<lparr>rat_value = Some 10\<rparr>)
      (Some \<lparr>percentage = 1 / 5, startAt = 0, endAt = 100\<rparr>) ProductStatusArchived (Some 5) 0 5)
     = ProductStatusArchived
   \<and> name (UpdateDetails (RehydrateProduct ''p1'' ''Old'' ''d'' ''c''
        (Some \<lparr>rat_value = Some 10\<rparr>) (Some \<lparr>percentage = 1 / 5, startAt = 0, endAt = 100\<rparr>)
        ProductStatusArchived (Some 5) 0 5) ''New'' [] [] 9) = ''New''
   \<and> updatedAt (UpdateDetails (RehydrateProduct ''p1'' ''Old'' ''d'' ''c''
        (Some \<lparr>rat_value = Some 10\<rparr>) (Some \<lparr>percentage = 1 / 5, startAt = 0, endAt = 100\<rparr>)
        ProductStatusArchived (Some 5) 0 5) ''New'' [] [] 9) = 9
   \<and> events (UpdateDetails (RehydrateProduct ''p1'' ''Old'' ''d'' ''c''
        (Some \<lparr>rat_value = Some 10\<rparr>) (Some \<lparr>percentage = 1 / 5, startAt = 0, endAt = 100\<rparr>)
        ProductStatusArchived (Some 5) 0 5) ''New'' [] [] 9) = [ProductUpdatedEvent 9 ''p1'']
   \<and> discount (RemoveDiscount (RehydrateProduct ''p1'' ''Old'' ''d'' ''c''
        (Some \<lparr>rat_value = Some 10\<rparr>) (Some \<lparr>percentage = 1 / 5, startAt = 0, endAt = 100\<rparr>)
        ProductStatusArchived (Some 5) 0 5) 9) = None
   \<and> updatedAt (RemoveDiscount (RehydrateProduct ''p1'' ''Old'' ''d'' ''c''
        (Some \<lparr>rat_value = Some 10\<rparr>) (Some \<lparr>percentage = 1 / 5, startAt = 0, endAt = 100\<rparr>)
        ProductStatusArchived (Some 5) 0 5) 9) = 9
   \<and> events (RemoveDiscount (RehydrateProduct ''p1'' ''Old'' ''d'' ''c''
        (Some \<lparr>rat_value = Some 10\<rparr>) (Some \<lparr>percentage = 1 / 5, startAt = 0, endAt = 100\<rparr>)
        ProductStatusArchived (Some 5) 0 5) 9) = [DiscountRemovedEvent 9 ''p1'']"
  by (simp add: RehydrateProduct_def UpdateDetails_def RemoveDiscount_def Let_def)

subsection \<open>PricingCalculator\<close>

text \<open>
  Claim C3. For every product \<open>p\<close> with a non-nil base price \<open>m\<close> and every time \<open>t\<close>: when
  \<open>p\<close> has no discount, or its discount is not valid at \<open>t\<close>, \<open>EffectivePrice\<close> returns \<open>m\<close>
  itself; when the discount \<open>d\<close> is valid at \<open>t\<close> it returns \<open>m\<close> multiplied by
  \<open>1 - percentage d\<close>, so that the rational value of the result is that of \<open>m\<close> times
  \<open>1 - percentage d\<close> exactly (a Money that wraps the rational \<open>b\<close> gives the Money that wraps
  \<open>b * (1 - percentage d)\<close>; a Money that wraps no rational gives nil, which has no
  rational value either). \<open>EffectivePrice\<close> is a function of the product that returns only
  the price: the source assigns to no field, so there is no updated product to return.
\<close>

theorem EffectivePrice_value:
  fixes p :: Product and m :: Money and t :: Time and d :: Discount and b :: rat
  assumes "basePrice p = Some m"
  shows "(discount p = None \<or> \<not> IsValidAt (discount p) t \<longrightarrow>
            EffectivePrice (Some p) t = Some m)
    \<and> (discount p = Some d \<and> IsValidAt (Some d) t \<longrightarrow>
            Rat (EffectivePrice (Some p) t)
              = map_option (\<lambda>v. v * (1 - percentage d)) (Rat (Some m))
          \<and> EffectivePrice (Some p) t = MultiplyBy (Some m) (Some (1 - percentage d))
          \<and> (rat_value m = Some b \<longrightarrow>
                EffectivePrice (Some p) t = Some \<lparr>rat_value = Some (b * (1 - percentage d))\<rparr>))"
  using assms
  by (auto simp: EffectivePrice_def MultiplyBy_def Rat_def IsValidAt_def split: option.splits)

theorem EffectivePrice_value_witness:
  "basePrice (RehydrateProduct ''p1'' ''n'' ''d'' ''c'' (Some \<lparr>rat_value = Some (9999 / 100)\<rparr>)
      (Some \<lparr>percentage = 15 / 100, startAt = 10, endAt = 20\<rparr>) ProductStatusActive None 0 0)
     = Some \<lparr>rat_value = Some (9999 / 100)\<rparr>
   \<and> IsValidAt (Some \<lparr>percentage = 15 / 100, startAt = 10, endAt = 20\<rparr>) 15
   \<and> EffectivePrice (Some (RehydrateProduct ''p1'' ''n'' ''d'' ''c''
        (Some \<lparr>rat_value = Some (9999 / 100)\<rparr>)
        (Some \<lparr>percentage = 15 / 100, startAt = 10, endAt = 20\<rparr>) ProductStatusActive None 0 0)) 15
     = Some \<lparr>rat_value = Some (849915 / 10000)\<rparr>
   \<and> \<not> IsValidAt (Some \<lparr>percentage = 15 / 100, startAt = 10, endAt = 20\<rparr>) 21
   \<and> EffectivePrice (Some (RehydrateProduct ''p1'' ''n'' ''d'' ''c''
        (Some \<lparr>rat_value = Some (9999 / 100)\<rparr>)
        (Some \<lparr>percentage = 15 / 100, startAt = 10, endAt = 20\<rparr>) ProductStatusActive None 0 0)) 21
     = Some \<lparr>rat_value = Some (9999 / 100)\<rparr>"
proof -
  let ?p = "RehydrateProduct ''p1'' ''n'' ''d'' ''c'' (Some \<lparr>rat_value = Some (9999 / 100)\<rparr>)
      (Some \<lparr>percentage = 15 / 100, startAt = 10, endAt = 20\<rparr>) ProductStatusActive None 0 0"
  have b: "basePrice ?p = Some \<lparr>rat_value = Some (9999 / 100)\<rparr>"
    by (simp add: RehydrateProduct_def)
  have d: "discount ?p = Some \<lparr>percentage = 15 / 100, startAt = 10, endAt = 20\<rparr>"
    by (simp add: RehydrateProduct_def)
  have v: "IsValidAt (Some \<lparr>percentage = 15 / 100, startAt = 10, endAt = 20\<rparr>) 15"
    "\<not> IsValidAt (Some \<lparr>percentage = 15 / 100, startAt = 10, endAt = 20\<rparr>) 21"
    by (simp_all add: IsValidAt_Some)
  show ?thesis
    using EffectivePrice_value [OF b, of 15 "\<lparr>percentage = 15 / 100, startAt = 10, endAt = 20\<rparr>" "9999 / 100"]
      EffectivePrice_value [OF b, of 21 "\<lparr>percentage = 15 / 100, startAt = 10, endAt = 20\<rparr>" "9999 / 100"]
      b d v
    by (simp add: MultiplyBy_def)
qed

subsection \<open>The apply-discount use case\<close>

text \<open>
  Claim C2 does not hold of the code. After a successful commit \<open>Execute\<close> clears the
  pending events of the aggregate, and that is all: it never calls \<open>Clear\<close> on the change
  tracker. Here the commit of a valid discount on an active product succeeds; the
  aggregate ends with no pending event and with the discount field still dirty, where
  \<open>Clear\<close> would have reset it. (When the committer fails, \<open>Execute_commit\<close> shows the
  aggregate left as \<open>ApplyDiscount\<close> made it, events and flags included.)
\<close>

theorem Execute_success_keeps_dirty_flags:
  "(case Execute
      \<lparr>FindByID = (\<lambda>i. Inr (RehydrateProduct i ''n'' ''d'' ''c'' (Some \<lparr>rat_value = Some 10\<rparr>)
                             None ProductStatusActive None 0 0)),
       UpdateMut = (\<lambda>p. Some ''update''),
       InsertMut = (\<lambda>e. Some (EventType e)),
       Apply = (\<lambda>plan. None),
       Now = 15,
       GenerateID = (\<lambda>k. ''id''),
       Marshal = (\<lambda>e. ''{}'')\<rparr>
      \<lparr>ProductID = ''p1'', PercentageNumerator = 20, PercentageDenominator = 100,
       StartDate = 10, EndDate = 20\<rparr>
    of Inr (None, Some p) \<Rightarrow>
         events p = [] \<and> Dirty (changes p) FieldDiscount
         \<and> \<not> Dirty (Clear (changes p)) FieldDiscount
     | _ \<Rightarrow> False)"
proof -
  have q: "NewRat (20 :: int64) 100 = 1 / 5"
    by (simp add: NewRat_def Fract_of_int_quotient)
  show ?thesis
    by (simp add: Execute_def q NewDiscount_def Cmp_def Before_def ApplyDiscount_def
        RehydrateProduct_def IsValidAt_Some ClearDomainEvents_def Dirty_MarkDirty Dirty_Clear
        Let_def)
qed

end
